theory Spec2Isabelle
  imports Main "HOL-Library.AList"
begin

section \<open>Python values\<close>

subsection \<open>Text\<close>

text \<open>
  Python text is modelled by \<^typ>\<open>string\<close>: lists of 8-bit characters, read as
  Latin-1 code points. The currency signs U+20A6 (naira) and U+20AC (euro) of the
  stripping pattern lie beyond that range, so they cannot occur in a modelled string;
  the pound sign is code 163. The character classes below are those of Python's
  \<^verbatim>\<open>str.lower\<close> and of the \<^verbatim>\<open>re\<close> module on this range.
\<close>

definition code :: "char \<Rightarrow> int" where
  "code c = of_char c"

definition lower_char :: "char \<Rightarrow> char" where
  "lower_char c =
     (if (65 \<le> code c \<and> code c \<le> 90) \<or> (192 \<le> code c \<and> code c \<le> 222 \<and> code c \<noteq> 215)
      then char_of (code c + 32) else c)"

definition lower :: "string \<Rightarrow> string" where
  "lower s = map lower_char s"

definition is_digit :: "char \<Rightarrow> bool" where
  "is_digit c = (48 \<le> code c \<and> code c \<le> 57)"

definition is_upper_AZ :: "char \<Rightarrow> bool" where
  "is_upper_AZ c = (65 \<le> code c \<and> code c \<le> 90)"

definition is_space :: "char \<Rightarrow> bool" where
  "is_space c = (code c \<in> {9, 10, 11, 12, 13, 28, 29, 30, 31, 32, 133, 160})"

definition is_word :: "char \<Rightarrow> bool" where
  "is_word c =
     (is_digit c \<or> (65 \<le> code c \<and> code c \<le> 90) \<or> code c = 95 \<or> (97 \<le> code c \<and> code c \<le> 122)
      \<or> code c \<in> {170, 178, 179, 181, 185, 186, 188, 189, 190}
      \<or> (192 \<le> code c \<and> code c \<noteq> 215 \<and> code c \<noteq> 247))"

fun starts_with :: "string \<Rightarrow> string \<Rightarrow> bool" where
  "starts_with s [] = True"
| "starts_with [] (p # ps) = False"
| "starts_with (c # cs) (p # ps) = (c = p \<and> starts_with cs ps)"

text \<open>\<^verbatim>\<open>sub in s\<close>\<close>

fun contains :: "string \<Rightarrow> string \<Rightarrow> bool" where
  "contains [] sub = (sub = [])"
| "contains (c # cs) sub = (starts_with (c # cs) sub \<or> contains cs sub)"

text \<open>\<^verbatim>\<open>sep.join(xs)\<close>\<close>

fun join :: "string \<Rightarrow> string list \<Rightarrow> string" where
  "join sep [] = []"
| "join sep [x] = x"
| "join sep (x # y # ys) = x @ sep @ join sep (y # ys)"

text \<open>\<^verbatim>\<open>s.strip()\<close>\<close>

definition strip :: "string \<Rightarrow> string" where
  "strip s = rev (dropWhile is_space (rev (dropWhile is_space s)))"

definition digit_char :: "int \<Rightarrow> char" where
  "digit_char n = char_of (48 + n)"

definition digit_val :: "char \<Rightarrow> int" where
  "digit_val c = code c - 48"

text \<open>Decimal text of a non-negative integer, and \<^verbatim>\<open>str(i)\<close> for any integer.\<close>

function str_nat :: "int \<Rightarrow> string" where
  "str_nat n = (if n < 10 then [digit_char n] else str_nat (n div 10) @ [digit_char (n mod 10)])"
  by pat_completeness auto
termination
  by (relation "measure nat") auto

declare str_nat.simps [simp del]

definition str_int :: "int \<Rightarrow> string" where
  "str_int i = (if i < 0 then ''-'' @ str_nat (- i) else str_nat i)"

text \<open>Decimal text padded with zeros on the left to at least \<open>w\<close> characters.\<close>

definition pad0 :: "nat \<Rightarrow> int \<Rightarrow> string" where
  "pad0 w n = replicate (w - length (str_nat n)) (CHR ''0'') @ str_nat n"

definition nat_of_digits :: "string \<Rightarrow> int" where
  "nat_of_digits ds = foldl (\<lambda>acc c. 10 * acc + digit_val c) 0 ds"

subsection \<open>Floating point\<close>

text \<open>
  A Python \<^verbatim>\<open>float\<close> is an IEEE double: \<open>FFin s m e\<close> is the finite value
  \<open>(-1)^s * m * 2^e\<close> with \<open>0 \<le> m\<close> (\<open>s\<close> the sign bit, so that \<open>-0.0\<close> is a value of
  its own), \<open>FInf s\<close> an infinity, \<open>FNaN\<close> not-a-number. Conversions round to the nearest
  double, ties to even, as \<^verbatim>\<open>float()\<close> does.
\<close>

datatype pyfloat = FFin bool int int | FInf bool | FNaN

function bitlen :: "int \<Rightarrow> int" where
  "bitlen n = (if n \<le> 0 then 0 else 1 + bitlen (n div 2))"
  by pat_completeness auto
termination
  by (relation "measure nat") auto

declare bitlen.simps [simp del]

definition round_half_even :: "int \<Rightarrow> int \<Rightarrow> int" where
  "round_half_even n d =
     (let q = n div d; r = n mod d
      in if d < 2 * r \<or> (2 * r = d \<and> odd q) then q + 1 else q)"

text \<open>The fraction \<open>num / (den * 2^e)\<close> as a numerator and a denominator.\<close>

definition scaled :: "int \<Rightarrow> int \<Rightarrow> int \<Rightarrow> int \<times> int" where
  "scaled num den e = (if 0 \<le> e then (num, den * 2 ^ nat e) else (num * 2 ^ nat (- e), den))"

text \<open>The double nearest to \<open>(-1)^s * num / den\<close>, for \<open>0 \<le> num\<close> and \<open>0 < den\<close>.\<close>

definition to_double :: "bool \<Rightarrow> int \<Rightarrow> int \<Rightarrow> pyfloat" where
  "to_double s num den =
     (if num = 0 then FFin s 0 0
      else
        let e0 = bitlen num - bitlen den - 53;
            e1 = (if 2 ^ 53 \<le> fst (scaled num den e0) div snd (scaled num den e0) then e0 + 1 else e0);
            e = max e1 (- 1074);
            m = round_half_even (fst (scaled num den e)) (snd (scaled num den e))
        in if 1024 < bitlen m + e then FInf s
           else if m = 2 ^ 53 then FFin s (2 ^ 52) (e + 1)
           else FFin s m e)"

text \<open>
  \<^verbatim>\<open>float(i)\<close> for an integer. Python raises \<^verbatim>\<open>OverflowError\<close> when \<open>i\<close> lies beyond
  the range of doubles (about \<open>1.8e308\<close>); no spreadsheet number does, and the model rounds
  such an integer to an infinity.
\<close>

definition float_of_int :: "int \<Rightarrow> pyfloat" where
  "float_of_int i = to_double (i < 0) \<bar>i\<bar> 1"

text \<open>The value \<open>(-1)^s * m * 2^e\<close> compared with an integer \<open>k\<close>.\<close>

definition signed :: "bool \<Rightarrow> int \<Rightarrow> int" where
  "signed s m = (if s then - m else m)"

fun float_lt_int :: "pyfloat \<Rightarrow> int \<Rightarrow> bool" where
  "float_lt_int (FFin s m e) k =
     (if 0 \<le> e then signed s m * 2 ^ nat e < k else signed s m < k * 2 ^ nat (- e))"
| "float_lt_int (FInf s) k = s"
| "float_lt_int FNaN k = False"

fun int_lt_float :: "int \<Rightarrow> pyfloat \<Rightarrow> bool" where
  "int_lt_float k (FFin s m e) =
     (if 0 \<le> e then k < signed s m * 2 ^ nat e else k * 2 ^ nat (- e) < signed s m)"
| "int_lt_float k (FInf s) = (\<not> s)"
| "int_lt_float k FNaN = False"

text \<open>\<^verbatim>\<open>f != 0\<close>, which is also the truth value of a float.\<close>

fun float_nonzero :: "pyfloat \<Rightarrow> bool" where
  "float_nonzero (FFin s m e) = (m \<noteq> 0)"
| "float_nonzero (FInf s) = True"
| "float_nonzero FNaN = True"

fun float_abs :: "pyfloat \<Rightarrow> pyfloat" where
  "float_abs (FFin s m e) = FFin False m e"
| "float_abs (FInf s) = FInf False"
| "float_abs FNaN = FNaN"

text \<open>\<^verbatim>\<open>f"{x:.2f}"\<close>: the exact value rounded to hundredths, ties to even.\<close>

fun fmt2 :: "pyfloat \<Rightarrow> string" where
  "fmt2 (FFin s m e) =
     (let c = (if 0 \<le> e then m * 100 * 2 ^ nat e else round_half_even (m * 100) (2 ^ nat (- e)))
      in (if s then ''-'' else '''') @ str_nat (c div 100) @ ''.'' @ pad0 2 (c mod 100))"
| "fmt2 (FInf s) = (if s then ''-inf'' else ''inf'')"
| "fmt2 FNaN = ''nan''"

text \<open>
  \<^verbatim>\<open>float(s)\<close> for text: surrounding whitespace, an optional sign, then \<^verbatim>\<open>inf\<close>,
  \<^verbatim>\<open>infinity\<close> or \<^verbatim>\<open>nan\<close> in any case, or a decimal literal whose digit groups may be
  separated by single underscores. \<open>None\<close> is Python's \<^verbatim>\<open>ValueError\<close>.
\<close>

fun digitrest :: "string \<Rightarrow> string \<times> string" where
  "digitrest [] = ([], [])"
| "digitrest [c] = (if is_digit c then ([c], []) else ([], [c]))"
| "digitrest (c # d # cs) =
     (if is_digit c then (c # fst (digitrest (d # cs)), snd (digitrest (d # cs)))
      else if c = CHR ''_'' \<and> is_digit d then (d # fst (digitrest cs), snd (digitrest cs))
      else ([], c # d # cs))"

definition digitpart :: "string \<Rightarrow> string \<times> string" where
  "digitpart s = (case s of [] \<Rightarrow> ([], []) | c # cs \<Rightarrow> if is_digit c then digitrest s else ([], s))"

definition split_sign :: "string \<Rightarrow> bool \<times> string" where
  "split_sign s =
     (case s of
        [] \<Rightarrow> (False, [])
      | c # cs \<Rightarrow> if c = CHR ''-'' then (True, cs) else if c = CHR ''+'' then (False, cs) else (False, s))"

text \<open>The exponent part: \<open>Some k\<close> for an absent or well-formed exponent to the end of the text.\<close>

definition exponent_part :: "string \<Rightarrow> int option" where
  "exponent_part s =
     (case s of
        [] \<Rightarrow> Some 0
      | c # cs \<Rightarrow>
          if c = CHR ''e'' \<or> c = CHR ''E'' then
            (case split_sign cs of (neg, r) \<Rightarrow>
               (case digitpart r of (ds, r') \<Rightarrow>
                  if ds = [] \<or> r' \<noteq> [] then None
                  else Some (if neg then - nat_of_digits ds else nat_of_digits ds)))
          else None)"

definition decimal_literal :: "bool \<Rightarrow> string \<Rightarrow> pyfloat option" where
  "decimal_literal neg s =
     (case digitpart s of (ip, r1) \<Rightarrow>
        (case (if starts_with r1 ''.'' then digitpart (tl r1) else ([], r1)) of (fp, r2) \<Rightarrow>
           if ip = [] \<and> fp = [] then None
           else
             (case exponent_part r2 of
                None \<Rightarrow> None
              | Some x \<Rightarrow>
                  let d = nat_of_digits (ip @ fp); k = x - int (length fp)
                  in Some (if 0 \<le> k then to_double neg (d * 10 ^ nat k) 1
                           else to_double neg d (10 ^ nat (- k))))))"

definition py_float :: "string \<Rightarrow> pyfloat option" where
  "py_float s =
     (case split_sign (strip s) of (neg, r) \<Rightarrow>
        if lower r = ''inf'' \<or> lower r = ''infinity'' then Some (FInf neg)
        else if lower r = ''nan'' then Some FNaN
        else decimal_literal neg r)"


text \<open>
  \<^verbatim>\<open>str(f)\<close> for a float: the shortest decimal digit string that converts back to the
  same double (the nearest such when several have that length), written in positional
  notation when the decimal point falls within \<open>(-4, 16]\<close> and in exponent notation
  otherwise.
\<close>

definition canon :: "pyfloat \<Rightarrow> pyfloat" where
  "canon f =
     (case f of
        FFin s m e \<Rightarrow> (if m = 0 then FFin s 0 0 else to_double s (fst (scaled m 1 (- e))) (snd (scaled m 1 (- e))))
      | _ \<Rightarrow> f)"

function lead_zeros :: "int \<Rightarrow> int \<Rightarrow> int" where
  "lead_zeros num den = (if num \<le> 0 \<or> den \<le> num then 0 else 1 + lead_zeros (10 * num) den)"
  by pat_completeness auto
termination
  by (relation "measure (\<lambda>(num, den). nat (den - num))") auto

declare lead_zeros.simps [simp del]

text \<open>The decimal exponent \<open>p\<close> with \<open>10^p \<le> num / den < 10^(p+1)\<close>.\<close>

definition dec_exp :: "int \<Rightarrow> int \<Rightarrow> int" where
  "dec_exp num den =
     (if den \<le> num then int (length (str_nat (num div den))) - 1 else - lead_zeros num den)"

text \<open>The fraction \<open>num / den * 10^k\<close> and the double nearest to \<open>c * 10^k\<close>.\<close>

definition scaled10 :: "int \<Rightarrow> int \<Rightarrow> int \<Rightarrow> int \<times> int" where
  "scaled10 num den k = (if 0 \<le> k then (num * 10 ^ nat k, den) else (num, den * 10 ^ nat (- k)))"

definition double_of_decimal :: "bool \<Rightarrow> int \<Rightarrow> int \<Rightarrow> pyfloat" where
  "double_of_decimal s c k = to_double s (fst (scaled10 c 1 k)) (snd (scaled10 c 1 k))"

text \<open>
  The candidates with \<open>n\<close> significant digits next to \<open>num / den\<close>, nearest first, each with
  the power of ten it is scaled by.
\<close>

definition candidates :: "int \<Rightarrow> int \<Rightarrow> int \<Rightarrow> nat \<Rightarrow> (int \<times> int) list" where
  "candidates num den p n =
     (let k = int n - 1 - p;
          lo = fst (scaled10 num den k) div snd (scaled10 num den k);
          near = round_half_even (fst (scaled10 num den k)) (snd (scaled10 num den k))
      in [(near, - k), (if near = lo then lo + 1 else lo, - k)])"

text \<open>The digits of the shortest representation and the position of the decimal point.\<close>

definition repr_digits :: "bool \<Rightarrow> int \<Rightarrow> int \<Rightarrow> string \<times> int" where
  "repr_digits s m e =
     (let num = fst (scaled m 1 (- e)); den = snd (scaled m 1 (- e)); p = dec_exp num den
      in case find (\<lambda>(c, k). 0 < c \<and> double_of_decimal s c k = canon (FFin s m e))
                (concat (map (candidates num den p) [1..<18])) of
           None \<Rightarrow> ([], 0)
         | Some (c, k) \<Rightarrow>
             (rev (dropWhile (\<lambda>x. x = CHR ''0'') (rev (str_nat c))), int (length (str_nat c)) + k))"

definition repr_layout :: "string \<Rightarrow> int \<Rightarrow> string" where
  "repr_layout ds decpt =
     (if - 4 < decpt \<and> decpt \<le> 16 then
        (if decpt \<le> 0 then ''0.'' @ replicate (nat (- decpt)) (CHR ''0'') @ ds
         else if int (length ds) \<le> decpt then ds @ replicate (nat decpt - length ds) (CHR ''0'') @ ''.0''
         else take (nat decpt) ds @ ''.'' @ drop (nat decpt) ds)
      else
        take 1 ds @ (if 1 < length ds then ''.'' @ drop 1 ds else '''') @ ''e''
          @ (if decpt - 1 < 0 then ''-'' else ''+'') @ pad0 2 \<bar>decpt - 1\<bar>)"

fun str_float :: "pyfloat \<Rightarrow> string" where
  "str_float (FFin s m e) =
     (if s then ''-'' else '''')
       @ (if m = 0 then ''0.0'' else repr_layout (fst (repr_digits s m e)) (snd (repr_digits s m e)))"
| "str_float (FInf s) = (if s then ''-inf'' else ''inf'')"
| "str_float FNaN = ''nan''"

subsection \<open>Dates\<close>

text \<open>
  A \<^verbatim>\<open>datetime\<close> value (a spreadsheet date cell, or a pandas timestamp, which is a
  subclass). Calendar arithmetic goes through the number of days since 1970-01-01 in the
  proleptic Gregorian calendar.
\<close>

record datetime =
  year :: int
  month :: int
  day :: int
  hour :: int
  minute :: int
  second :: int
  microsecond :: int

definition days_from_civil :: "int \<Rightarrow> int \<Rightarrow> int \<Rightarrow> int" where
  "days_from_civil y m d =
     (let y' = (if m \<le> 2 then y - 1 else y);
          era = y' div 400;
          yoe = y' - era * 400;
          doy = (153 * (if 2 < m then m - 3 else m + 9) + 2) div 5 + d - 1;
          doe = yoe * 365 + yoe div 4 - yoe div 100 + doy
      in era * 146097 + doe - 719468)"

definition civil_from_days :: "int \<Rightarrow> int \<times> int \<times> int" where
  "civil_from_days z =
     (let z' = z + 719468;
          era = z' div 146097;
          doe = z' - era * 146097;
          yoe = (doe - doe div 1460 + doe div 36524 - doe div 146096) div 365;
          doy = doe - (365 * yoe + yoe div 4 - yoe div 100);
          mp = (5 * doy + 2) div 153;
          d = doy - (153 * mp + 2) div 5 + 1;
          m = (if mp < 10 then mp + 3 else mp - 9)
      in (if m \<le> 2 then yoe + era * 400 + 1 else yoe + era * 400, m, d))"

text \<open>Midnight of the day with the given day number.\<close>

definition datetime_of_days :: "int \<Rightarrow> datetime" where
  "datetime_of_days z =
     (case civil_from_days z of (y, m, d) \<Rightarrow>
        \<lparr>year = y, month = m, day = d, hour = 0, minute = 0, second = 0, microsecond = 0\<rparr>)"

text \<open>\<^verbatim>\<open>str(d)\<close> for a datetime.\<close>

definition str_datetime :: "datetime \<Rightarrow> string" where
  "str_datetime d =
     pad0 4 (year d) @ ''-'' @ pad0 2 (month d) @ ''-'' @ pad0 2 (day d) @ '' ''
       @ pad0 2 (hour d) @ '':'' @ pad0 2 (minute d) @ '':'' @ pad0 2 (second d)
       @ (if microsecond d = 0 then '''' else ''.'' @ pad0 6 (microsecond d))"

text \<open>
  \<^verbatim>\<open>strftime\<close> with the three formats the code uses. \<^verbatim>\<open>%Y\<close> is written with four digits;
  platforms differ on years below 1000 only.
\<close>

definition strftime_dmy :: "datetime \<Rightarrow> string" where
  "strftime_dmy d = pad0 2 (day d) @ ''/'' @ pad0 2 (month d) @ ''/'' @ pad0 4 (year d)"

definition strftime_mdy :: "datetime \<Rightarrow> string" where
  "strftime_mdy d = pad0 2 (month d) @ ''/'' @ pad0 2 (day d) @ ''/'' @ pad0 4 (year d)"

definition strftime_ymd :: "datetime \<Rightarrow> string" where
  "strftime_ymd d = pad0 4 (year d) @ ''-'' @ pad0 2 (month d) @ ''-'' @ pad0 2 (day d)"

subsection \<open>Cells\<close>

text \<open>
  A cell of the loaded grid: absent, boolean, integer, float, text or temporal. A Python
  \<^verbatim>\<open>bool\<close> is an \<^verbatim>\<open>int\<close>, so it takes the numeric branch of every \<^verbatim>\<open>isinstance\<close> test.
\<close>

datatype cell = CNone | CBool bool | CInt int | CFloat pyfloat | CStr string | CDate datetime

type_synonym row = "cell list"
type_synonym grid = "row list"

text \<open>The truth value of a cell, as in \<^verbatim>\<open>if cell\<close>.\<close>

fun truthy :: "cell \<Rightarrow> bool" where
  "truthy CNone = False"
| "truthy (CBool b) = b"
| "truthy (CInt i) = (i \<noteq> 0)"
| "truthy (CFloat f) = float_nonzero f"
| "truthy (CStr s) = (s \<noteq> [])"
| "truthy (CDate d) = True"

text \<open>\<^verbatim>\<open>str(cell)\<close>\<close>

fun cell_str :: "cell \<Rightarrow> string" where
  "cell_str CNone = ''None''"
| "cell_str (CBool b) = (if b then ''True'' else ''False'')"
| "cell_str (CInt i) = str_int i"
| "cell_str (CFloat f) = str_float f"
| "cell_str (CStr s) = s"
| "cell_str (CDate d) = str_datetime d"

fun is_str :: "cell \<Rightarrow> bool" where
  "is_str (CStr s) = True"
| "is_str _ = False"

section \<open>The statement transformer\<close>

subsection \<open>Format registry\<close>

definition standard_headers :: "string list" where
  "standard_headers =
     [''Tran Date'', ''Value Date'', ''Ref. No'', ''Transaction Details'',
      ''Debit'', ''Credit'', ''Balance'']"

text \<open>
  The \<^verbatim>\<open>header_row\<close> entry of a format: the text \<^verbatim>\<open>'auto-detect'\<close> of the generic
  registry entry, the value \<open>-1\<close> of a failed generic detection, or a row index.
\<close>

datatype header_pos = AutoDetect | HeaderMissing | HeaderAt nat

text \<open>
  A format dictionary. \<open>account_info_rows\<close> is \<open>None\<close> when the dictionary has no such
  entry, as the generic registry entry has none; \<open>mapping\<close> keeps the insertion order of
  the dictionary.
\<close>

record format_info =
  key :: string
  name :: string
  identifiers :: "string list"
  header_row :: header_pos
  account_info_rows :: "nat list option"
  mapping :: "(string \<times> string) list"

definition bank_formats :: "(string \<times> format_info) list" where
  "bank_formats =
     [(''FCMB_FORMAT_1'',
       \<lparr>key = '''', name = ''FCMB Statement Format 1'',
        identifiers = [''1021040520'', ''STATEMENT OF ACCOUNT''],
        header_row = HeaderAt 16,
        account_info_rows = Some [3, 4, 5, 6, 7, 8, 12, 13, 14],
        mapping =
          [(''Transaction Date'', ''Tran Date''),
           (''Description'', ''Transaction Details''),
           (''Value Date'', ''Value Date''),
           (''Withdrawls'', ''Debit''),
           (''Deposits'', ''Credit''),
           (''Balance'', ''Balance''),
           (''Instrument Code'', ''Ref. No'')]\<rparr>),
      (''GTB_ODS_FORMAT'',
       \<lparr>key = '''', name = ''GTB ODS Statement Format'',
        identifiers = [''TRA DATE'', ''REMARKS'', ''NUBAN''],
        header_row = HeaderAt 2,
        account_info_rows = Some [0, 1],
        mapping =
          [(''TRA DATE'', ''Tran Date''),
           (''REMARKS'', ''Transaction Details''),
           (''NUBAN'', ''Ref. No''),
           (''DEBIT'', ''Debit''),
           (''CREDIT'', ''Credit''),
           (''CRNT BAL'', ''Balance'')]\<rparr>),
      (''GENERIC'',
       \<lparr>key = '''', name = ''Generic Bank Format'',
        identifiers = [],
        header_row = AutoDetect,
        account_info_rows = None,
        mapping = []\<rparr>)]"

subsection \<open>Cell classification and amounts\<close>

text \<open>Removal of the characters of \<^verbatim>\<open>[$,\s()]\<close> and the currency signs.\<close>

definition strip_char :: "char \<Rightarrow> bool" where
  "strip_char c =
     (c = CHR ''$'' \<or> c = CHR 0xA3 \<or> c = CHR '','' \<or> c = CHR ''('' \<or> c = CHR '')'' \<or> is_space c)"

definition clean :: "string \<Rightarrow> string" where
  "clean s = filter (\<lambda>c. \<not> strip_char c) s"

definition zero_float :: pyfloat where
  "zero_float = FFin False 0 0"

fun parse_amount :: "cell \<Rightarrow> pyfloat" where
  "parse_amount (CBool b) = float_of_int (if b then 1 else 0)"
| "parse_amount (CInt i) = float_of_int i"
| "parse_amount (CFloat f) = f"
| "parse_amount (CStr s) = (case py_float (clean s) of Some f \<Rightarrow> f | None \<Rightarrow> zero_float)"
| "parse_amount CNone = zero_float"
| "parse_amount (CDate d) = zero_float"

definition standardize_amount :: "cell \<Rightarrow> string" where
  "standardize_amount amount =
     (if amount = CStr '''' \<or> amount = CNone then '''' else fmt2 (parse_amount amount))"

text \<open>
  One of the three date patterns, \<^verbatim>\<open>^\d{l1,h1}[\/\-]\d{l2,h2}[\/\-]\d{l3,h3}$\<close>, under
  \<^verbatim>\<open>re.match\<close>: each digit group is a whole run of digits, and \<^verbatim>\<open>$\<close> also matches before
  a final newline.
\<close>

definition is_sep :: "char \<Rightarrow> bool" where
  "is_sep c = (c = CHR ''/'' \<or> c = CHR ''-'')"

definition digit_group :: "nat \<Rightarrow> nat \<Rightarrow> string \<Rightarrow> string option" where
  "digit_group l h s =
     (if l \<le> length (takeWhile is_digit s) \<and> length (takeWhile is_digit s) \<le> h
      then Some (dropWhile is_digit s) else None)"

definition after_sep :: "string \<Rightarrow> string option" where
  "after_sep s = (case s of [] \<Rightarrow> None | c # cs \<Rightarrow> if is_sep c then Some cs else None)"

definition match_date_pattern :: "nat \<times> nat \<Rightarrow> nat \<times> nat \<Rightarrow> nat \<times> nat \<Rightarrow> string \<Rightarrow> bool" where
  "match_date_pattern g1 g2 g3 s =
     (case Option.bind (Option.bind (Option.bind (Option.bind (digit_group (fst g1) (snd g1) s)
             after_sep) (digit_group (fst g2) (snd g2))) after_sep) (digit_group (fst g3) (snd g3)) of
        None \<Rightarrow> False
      | Some r \<Rightarrow> r = [] \<or> r = [CHR 0x0A])"

definition date_patterns :: "((nat \<times> nat) \<times> (nat \<times> nat) \<times> (nat \<times> nat)) list" where
  "date_patterns = [((1, 2), (1, 2), (4, 4)), ((4, 4), (1, 2), (1, 2)), ((1, 2), (1, 2), (2, 2))]"

fun is_date :: "cell \<Rightarrow> bool" where
  "is_date (CBool b) = False"
| "is_date (CInt i) = (1000 < i \<and> i < 100000)"
| "is_date (CFloat f) = (int_lt_float 1000 f \<and> float_lt_int f 100000)"
| "is_date (CStr s) = list_ex (\<lambda>(g1, g2, g3). match_date_pattern g1 g2 g3 s) date_patterns"
| "is_date (CDate d) = True"
| "is_date CNone = False"

fun is_amount :: "cell \<Rightarrow> bool" where
  "is_amount (CBool b) = b"
| "is_amount (CInt i) = (i \<noteq> 0)"
| "is_amount (CFloat f) = float_nonzero f"
| "is_amount (CStr s) = (case py_float (clean s) of Some f \<Rightarrow> float_nonzero f | None \<Rightarrow> False)"
| "is_amount CNone = False"
| "is_amount (CDate d) = False"

subsection \<open>Format detection\<close>

definition search_text :: "grid \<Rightarrow> string" where
  "search_text raw_data =
     lower (join '' '' (map cell_str (filter (\<lambda>c. c \<noteq> CNone) (concat (take 20 raw_data)))))"

definition identifiers_found :: "string \<Rightarrow> format_info \<Rightarrow> bool" where
  "identifiers_found text fi = list_all (\<lambda>identifier. contains text (lower identifier)) (identifiers fi)"

fun detect_loop :: "string \<Rightarrow> (string \<times> format_info) list \<Rightarrow> format_info option" where
  "detect_loop text [] = None"
| "detect_loop text ((format_key, fi) # rest) =
     (if format_key = ''GENERIC'' then detect_loop text rest
      else if identifiers_found text fi then Some (fi\<lparr>key := format_key\<rparr>)
      else detect_loop text rest)"

definition common_headers :: "string list" where
  "common_headers =
     [''date'', ''transaction'', ''description'', ''narration'', ''remarks'',
      ''debit'', ''credit'', ''withdrawal'', ''deposit'', ''balance'', ''amount'']"

definition header_cell :: "cell \<Rightarrow> bool" where
  "header_cell c =
     (truthy c \<and> is_str c \<and> list_ex (\<lambda>header. contains (lower (cell_str c)) header) common_headers)"

definition header_count :: "row \<Rightarrow> nat" where
  "header_count row = length (filter header_cell row)"

definition any_word :: "string \<Rightarrow> string list \<Rightarrow> bool" where
  "any_word cell_lower ws = list_ex (\<lambda>w. contains cell_lower w) ws"

definition mapping_rule :: "string \<Rightarrow> string option" where
  "mapping_rule cell_lower =
     (if contains cell_lower ''date'' \<and> \<not> contains cell_lower ''value'' then Some ''Tran Date''
      else if contains cell_lower ''value'' \<and> contains cell_lower ''date'' then Some ''Value Date''
      else if any_word cell_lower [''description'', ''narration'', ''remarks'']
        then Some ''Transaction Details''
      else if any_word cell_lower [''debit'', ''withdrawal''] then Some ''Debit''
      else if any_word cell_lower [''credit'', ''deposit''] then Some ''Credit''
      else if contains cell_lower ''balance'' then Some ''Balance''
      else if any_word cell_lower [''reference'', ''ref''] then Some ''Ref. No''
      else None)"

definition create_mapping :: "row \<Rightarrow> (string \<times> string) list" where
  "create_mapping row =
     foldl (\<lambda>m c.
        if truthy c \<and> is_str c then
          (case mapping_rule (lower (cell_str c)) of
             Some standard \<Rightarrow> AList.update (cell_str c) standard m
           | None \<Rightarrow> m)
        else m) [] row"

text \<open>The search for the header row, \<open>i\<close> the index of the first row of the list.\<close>

fun find_header :: "nat \<Rightarrow> grid \<Rightarrow> (nat \<times> row) option" where
  "find_header i [] = None"
| "find_header i (row # rows) =
     (if row = [] then find_header (Suc i) rows
      else if 4 \<le> header_count row then Some (i, row)
      else find_header (Suc i) rows)"

definition detect_generic_format :: "grid \<Rightarrow> format_info" where
  "detect_generic_format raw_data =
     (case find_header 0 (take 25 raw_data) of
        None \<Rightarrow>
          \<lparr>key = ''GENERIC'', name = ''Generic Bank Format'', identifiers = [],
           header_row = HeaderMissing, account_info_rows = Some [0..<5], mapping = []\<rparr>
      | Some (i, row) \<Rightarrow>
          \<lparr>key = ''GENERIC'', name = ''Generic Bank Format'', identifiers = [],
           header_row = HeaderAt i, account_info_rows = Some [0..<5],
           mapping = create_mapping row\<rparr>)"

definition detect_format :: "grid \<Rightarrow> format_info" where
  "detect_format raw_data =
     (case detect_loop (search_text raw_data) bank_formats of
        Some fi \<Rightarrow> fi
      | None \<Rightarrow> detect_generic_format raw_data)"

subsection \<open>Account information\<close>

text \<open>The account-info dictionary: a field is \<open>None\<close> while its key is absent.\<close>

record account_info =
  account_number :: "string option"
  account_name :: "string option"
  opening_balance :: "pyfloat option"
  closing_balance :: "pyfloat option"

definition empty_info :: account_info where
  "empty_info =
     \<lparr>account_number = None, account_name = None, opening_balance = None, closing_balance = None\<rparr>"

text \<open>The maximal runs of characters satisfying \<open>P\<close>, in order (empty runs included).\<close>

fun runs :: "(char \<Rightarrow> bool) \<Rightarrow> string \<Rightarrow> string \<Rightarrow> string list" where
  "runs P acc [] = [rev acc]"
| "runs P acc (c # cs) = (if P c then runs P (c # acc) cs else rev acc # runs P [] cs)"

text \<open>\<^verbatim>\<open>re.search(r'(\d{10,})', text)\<close>: the first run of ten or more digits.\<close>

definition search_account :: "string \<Rightarrow> string option" where
  "search_account text = find (\<lambda>r. 10 \<le> length r) (runs is_digit [] text)"

text \<open>
  \<^verbatim>\<open>re.search(r'\b[A-Z][A-Z\s]{10,}\b', text)\<close>: at the leftmost word boundary followed by a
  capital, the longest continuation of at least ten capitals or spaces that ends at a
  word boundary.
\<close>

definition name_char :: "char \<Rightarrow> bool" where
  "name_char c = (is_upper_AZ c \<or> is_space c)"

definition boundary_after :: "char \<Rightarrow> string \<Rightarrow> bool" where
  "boundary_after c rest = (is_word c \<noteq> (case rest of [] \<Rightarrow> False | d # ds \<Rightarrow> is_word d))"

definition name_match_at :: "bool \<Rightarrow> string \<Rightarrow> string option" where
  "name_match_at prev_word s =
     (case s of
        [] \<Rightarrow> None
      | c # rest \<Rightarrow>
          if \<not> prev_word \<and> is_upper_AZ c then
            (case find (\<lambda>k. boundary_after (last (c # take k rest)) (drop k rest))
                    (rev [10..<Suc (length (takeWhile name_char rest))]) of
               None \<Rightarrow> None
             | Some k \<Rightarrow> Some (c # take k rest))
          else None)"

fun name_search :: "bool \<Rightarrow> string \<Rightarrow> string option" where
  "name_search prev_word [] = None"
| "name_search prev_word (c # cs) =
     (case name_match_at prev_word (c # cs) of
        Some m \<Rightarrow> Some m
      | None \<Rightarrow> name_search (is_word c) cs)"

text \<open>The loop over the cells of a row that picks up the balances.\<close>

fun balances :: "account_info \<Rightarrow> row \<Rightarrow> account_info" where
  "balances info [] = info"
| "balances info (c # rest) =
     balances
       (case c of
          CStr s \<Rightarrow>
            if contains (lower s) ''opening balance'' \<and> rest \<noteq> []
              then info\<lparr>opening_balance := Some (parse_amount (hd rest))\<rparr>
            else if contains (lower s) ''closing balance'' \<and> rest \<noteq> []
              then info\<lparr>closing_balance := Some (parse_amount (hd rest))\<rparr>
            else info
        | _ \<Rightarrow> info)
       rest"

definition account_row :: "account_info \<Rightarrow> row \<Rightarrow> account_info" where
  "account_row info row =
     (let row_text = join '' '' (map cell_str (filter (\<lambda>c. c \<noteq> CNone) row));
          info1 = (case search_account row_text of
                     Some m \<Rightarrow> if account_number info = None then info\<lparr>account_number := Some m\<rparr> else info
                   | None \<Rightarrow> info);
          info2 = (case name_search False row_text of
                     Some m \<Rightarrow>
                       if account_name info1 = None then
                         (if \<not> contains (strip m) ''ACCOUNT'' then info1\<lparr>account_name := Some (strip m)\<rparr>
                          else info1)
                       else info1
                   | None \<Rightarrow> info1)
      in balances info2 row)"

definition extract_account_info :: "grid \<Rightarrow> format_info \<Rightarrow> account_info" where
  "extract_account_info raw_data fi =
     (case account_info_rows fi of
        None \<Rightarrow> empty_info
      | Some indices \<Rightarrow>
          foldl (\<lambda>info row_index.
                   if row_index < length raw_data \<and> raw_data ! row_index \<noteq> []
                   then account_row info (raw_data ! row_index) else info)
                empty_info indices)"

subsection \<open>Transaction extraction\<close>

datatype error = ValueError string | IndexError string | TypeError string | KeyError string | FrameKeyError

text \<open>\<^verbatim>\<open>str(e)\<close> for the exceptions whose text the transformer reports.\<close>

fun error_message :: "error \<Rightarrow> string" where
  "error_message (ValueError m) = m"
| "error_message (IndexError m) = m"
| "error_message (TypeError m) = m"
| "error_message (KeyError k) = [CHR 0x27] @ k @ [CHR 0x27]"
| "error_message FrameKeyError = []"

text \<open>A dictionary from column label to cell, in insertion order.\<close>

type_synonym txn = "(string \<times> cell) list"

definition make_transaction :: "row \<Rightarrow> row \<Rightarrow> txn" where
  "make_transaction headers row =
     foldl (\<lambda>t (header, c).
              if truthy header \<and> c \<noteq> CNone then AList.update (cell_str header) c t else t)
           [] (zip headers row)"

definition blank_row :: "row \<Rightarrow> bool" where
  "blank_row row = (row = [] \<or> \<not> list_ex truthy (filter (\<lambda>c. c \<noteq> CNone) row))"

definition has_date_or_amount :: "row \<Rightarrow> bool" where
  "has_date_or_amount row = list_ex (\<lambda>c. is_date c \<or> is_amount c) (filter (\<lambda>c. c \<noteq> CNone) row)"

fun extract_rows :: "row \<Rightarrow> grid \<Rightarrow> txn list" where
  "extract_rows headers [] = []"
| "extract_rows headers (row # rows) =
     (if blank_row row then extract_rows headers rows
      else if has_date_or_amount row then
        (if make_transaction headers row \<noteq> [] then make_transaction headers row # extract_rows headers rows
         else extract_rows headers rows)
      else extract_rows headers rows)"

definition extract_transactions :: "grid \<Rightarrow> format_info \<Rightarrow> error + txn list" where
  "extract_transactions raw_data fi =
     (case header_row fi of
        HeaderMissing \<Rightarrow> Inl (ValueError ''Unable to locate transaction header row'')
      | AutoDetect \<Rightarrow> Inl (TypeError ''list indices must be integers or slices, not str'')
      | HeaderAt header_row_index \<Rightarrow>
          if header_row_index < length raw_data
          then Inr (extract_rows (raw_data ! header_row_index) (drop (Suc header_row_index) raw_data))
          else Inl (IndexError ''list index out of range''))"

subsection \<open>Standardization\<close>

text \<open>
  The seconds of \<^verbatim>\<open>pd.Timedelta(days=v - 2)\<close> for a number \<open>v\<close>, computed exactly. The
  timedelta holds nanoseconds in 64 bits, so its construction fails, with an exception,
  beyond \<open>2^63 - 1\<close> nanoseconds (a little under 106752 days) and for an infinity.
\<close>

fun float_floor_mul :: "pyfloat \<Rightarrow> int \<Rightarrow> int option" where
  "float_floor_mul (FFin s m e) k =
     Some (if 0 \<le> e then signed s m * 2 ^ nat e * k else (signed s m * k) div 2 ^ nat (- e))"
| "float_floor_mul (FInf s) k = None"
| "float_floor_mul FNaN k = None"

definition timedelta_seconds :: "int option \<Rightarrow> int option" where
  "timedelta_seconds secs =
     (case secs of
        None \<Rightarrow> None
      | Some n \<Rightarrow> if n * 1000000000 < 2 ^ 63 \<and> - (2 ^ 63) < n * 1000000000 then Some n else None)"

text \<open>\<^verbatim>\<open>datetime(1900, 1, 1)\<close> plus a timedelta of whole seconds.\<close>

definition excel_epoch :: int where
  "excel_epoch = days_from_civil 1900 1 1"

definition epoch_plus :: "int \<Rightarrow> datetime" where
  "epoch_plus secs =
     (datetime_of_days (excel_epoch + secs div 86400))
       \<lparr>hour := secs mod 86400 div 3600, minute := secs mod 3600 div 60, second := secs mod 60\<rparr>"

text \<open>
  The date object of \<^verbatim>\<open>_standardize_date\<close>; \<open>None\<close> on each path that returns
  \<^verbatim>\<open>str(date_value)\<close>: no branch applies, the parse gives a missing value, or an
  exception is caught. \<open>to_datetime\<close> stands for \<^verbatim>\<open>pd.to_datetime(s, errors='coerce')\<close>.
\<close>

fun date_object :: "(string \<Rightarrow> datetime option) \<Rightarrow> cell \<Rightarrow> datetime option" where
  "date_object to_datetime (CBool b) = None"
| "date_object to_datetime (CInt i) =
     (if 1000 < i then map_option epoch_plus (timedelta_seconds (Some ((i - 2) * 86400))) else None)"
| "date_object to_datetime (CFloat f) =
     (if int_lt_float 1000 f
      then map_option epoch_plus
             (timedelta_seconds (map_option (\<lambda>n. n - 172800) (float_floor_mul f 86400)))
      else None)"
| "date_object to_datetime (CStr s) = to_datetime s"
| "date_object to_datetime (CDate d) = Some d"
| "date_object to_datetime CNone = None"

definition render_date :: "string \<Rightarrow> datetime \<Rightarrow> string" where
  "render_date target_format d =
     (if target_format = ''DD/MM/YYYY'' then strftime_dmy d
      else if target_format = ''MM/DD/YYYY'' then strftime_mdy d
      else if target_format = ''YYYY-MM-DD'' then strftime_ymd d
      else strftime_dmy d)"

definition standardize_date :: "(string \<Rightarrow> datetime option) \<Rightarrow> cell \<Rightarrow> string \<Rightarrow> string" where
  "standardize_date to_datetime date_value target_format =
     (if \<not> truthy date_value then ''''
      else
        (case date_object to_datetime date_value of
           None \<Rightarrow> cell_str date_value
         | Some d \<Rightarrow> render_date target_format d))"

record options =
  date_format :: "string option"
  include_metadata :: "bool option"

text \<open>A standardized transaction: a dictionary from field name to value.\<close>

type_synonym std_txn = "(string \<times> cell) list"

definition get_truthy :: "std_txn \<Rightarrow> string \<Rightarrow> bool" where
  "get_truthy d k = (case map_of d k of Some v \<Rightarrow> truthy v | None \<Rightarrow> False)"

definition convert_value :: "(string \<Rightarrow> datetime option) \<Rightarrow> options \<Rightarrow> string \<Rightarrow> cell \<Rightarrow> cell" where
  "convert_value to_datetime opts standard v =
     (if contains standard ''Date''
        then CStr (standardize_date to_datetime v
                     (case date_format opts of Some f \<Rightarrow> f | None \<Rightarrow> ''DD/MM/YYYY''))
      else if standard \<in> set [''Debit'', ''Credit'', ''Balance''] then CStr (standardize_amount v)
      else v)"

definition apply_mapping ::
  "(string \<Rightarrow> datetime option) \<Rightarrow> options \<Rightarrow> (string \<times> string) list \<Rightarrow> txn \<Rightarrow> std_txn" where
  "apply_mapping to_datetime opts m transaction =
     foldl (\<lambda>st (original, standard).
              (case map_of transaction original of
                 None \<Rightarrow> st
               | Some v \<Rightarrow>
                   if v = CNone then st
                   else AList.update standard (convert_value to_datetime opts standard v) st))
           [] m"

definition backfill :: "std_txn \<Rightarrow> std_txn" where
  "backfill st =
     foldl (\<lambda>d header. if map_of d header = None then AList.update header (CStr '''') d else d)
           st standard_headers"

definition amount_fallback :: "std_txn \<Rightarrow> txn \<Rightarrow> std_txn" where
  "amount_fallback standardized original =
     (case map_of original ''Amount'' of
        None \<Rightarrow> standardized
      | Some a \<Rightarrow>
          if \<not> get_truthy standardized ''Debit'' \<and> \<not> get_truthy standardized ''Credit'' then
            (if float_lt_int (parse_amount a) 0
             then AList.update ''Credit'' (CStr '''')
                    (AList.update ''Debit'' (CStr (fmt2 (float_abs (parse_amount a)))) standardized)
             else AList.update ''Debit'' (CStr '''')
                    (AList.update ''Credit'' (CStr (fmt2 (parse_amount a))) standardized))
          else standardized)"

definition ensure_formatting :: "std_txn \<Rightarrow> std_txn" where
  "ensure_formatting standardized =
     (let s1 = (if get_truthy standardized ''Debit'' \<and> \<not> get_truthy standardized ''Credit''
                then AList.update ''Credit'' (CStr '''') standardized else standardized)
      in if get_truthy s1 ''Credit'' \<and> \<not> get_truthy s1 ''Debit''
         then AList.update ''Debit'' (CStr '''') s1 else s1)"

definition handle_debit_credit_logic :: "std_txn \<Rightarrow> txn \<Rightarrow> std_txn" where
  "handle_debit_credit_logic standardized original =
     ensure_formatting (amount_fallback standardized original)"

definition standardize_one ::
  "(string \<Rightarrow> datetime option) \<Rightarrow> format_info \<Rightarrow> options \<Rightarrow> txn \<Rightarrow> std_txn" where
  "standardize_one to_datetime fi opts transaction =
     handle_debit_credit_logic
       (backfill (apply_mapping to_datetime opts (mapping fi) transaction)) transaction"

definition standardize_transactions ::
  "(string \<Rightarrow> datetime option) \<Rightarrow> txn list \<Rightarrow> format_info \<Rightarrow> options \<Rightarrow> std_txn list" where
  "standardize_transactions to_datetime transactions fi opts =
     map (standardize_one to_datetime fi opts) transactions"

subsection \<open>The transform and the output tables\<close>

record success_data =
  result_account_info :: account_info
  result_transactions :: "std_txn list"
  original_format :: string
  records_processed :: nat
  result_file_name :: string
  processed_at :: string

datatype transform_result = Success success_data | Failure string string

fun success :: "transform_result \<Rightarrow> bool" where
  "success (Success d) = True"
| "success (Failure msg file) = False"

text \<open>
  The transform on a loaded grid; reading the file is the loader's part. \<open>now\<close> is the
  text of \<^verbatim>\<open>datetime.now().isoformat()\<close>, \<open>file_name\<close> the name of the file. An
  exception of any step is caught and becomes the failure result.
\<close>

definition transform_statement ::
  "(string \<Rightarrow> datetime option) \<Rightarrow> string \<Rightarrow> string \<Rightarrow> grid \<Rightarrow> options \<Rightarrow> transform_result" where
  "transform_statement to_datetime now file_name raw_data opts =
     (let fi = detect_format raw_data;
          info = extract_account_info raw_data fi
      in case extract_transactions raw_data fi of
           Inl e \<Rightarrow> Failure (error_message e) file_name
         | Inr transactions \<Rightarrow>
             Success
               \<lparr>result_account_info = info,
                result_transactions = standardize_transactions to_datetime transactions fi opts,
                original_format = name fi,
                records_processed = length (standardize_transactions to_datetime transactions fi opts),
                result_file_name = file_name,
                processed_at = now\<rparr>)"

text \<open>
  The two tables handed to the spreadsheet writer. The data frame built from the list of
  dictionaries has the union of their keys as columns; selecting the standard headers
  raises a key error when one is not a column, and a dictionary without a column's key
  gives a missing value (NaN) there.
\<close>

definition frame_columns :: "std_txn list \<Rightarrow> string list" where
  "frame_columns ts = remdups (concat (map (map fst) ts))"

definition transactions_table :: "std_txn list \<Rightarrow> error + cell list list" where
  "transactions_table ts =
     (if list_all (\<lambda>header. header \<in> set (frame_columns ts)) standard_headers
      then Inr (map (\<lambda>t. map (\<lambda>header. case map_of t header of Some v \<Rightarrow> v | None \<Rightarrow> CFloat FNaN)
                            standard_headers) ts)
      else Inl FrameKeyError)"

definition info_nonempty :: "account_info \<Rightarrow> bool" where
  "info_nonempty info =
     (account_number info \<noteq> None \<or> account_name info \<noteq> None
      \<or> opening_balance info \<noteq> None \<or> closing_balance info \<noteq> None)"

definition text_or_empty :: "string option \<Rightarrow> cell" where
  "text_or_empty v = (case v of Some s \<Rightarrow> CStr s | None \<Rightarrow> CStr '''')"

definition float_or_empty :: "pyfloat option \<Rightarrow> cell" where
  "float_or_empty v = (case v of Some f \<Rightarrow> CFloat f | None \<Rightarrow> CStr '''')"

definition metadata_rows :: "success_data \<Rightarrow> (string \<times> cell) list" where
  "metadata_rows d =
     [(''Account Information'', CStr ''''),
      (''Account Number'', text_or_empty (account_number (result_account_info d))),
      (''Account Name'', text_or_empty (account_name (result_account_info d))),
      (''Opening Balance'', float_or_empty (opening_balance (result_account_info d))),
      (''Closing Balance'', float_or_empty (closing_balance (result_account_info d))),
      ('''', CStr ''''),
      (''Processing Information'', CStr ''''),
      (''Original Format'', CStr (original_format d)),
      (''Records Processed'', CInt (int (records_processed d))),
      (''Processed At'', CStr (processed_at d))]"

definition generate_standardized_file ::
  "transform_result \<Rightarrow> options \<Rightarrow> error + cell list list \<times> (string \<times> cell) list option" where
  "generate_standardized_file transformed_data opts =
     (case transformed_data of
        Failure msg file \<Rightarrow> Inl (KeyError ''transactions'')
      | Success d \<Rightarrow>
          (case transactions_table (result_transactions d) of
             Inl e \<Rightarrow> Inl e
           | Inr table \<Rightarrow>
               Inr (table,
                    if (case include_metadata opts of Some b \<Rightarrow> b | None \<Rightarrow> True)
                       \<and> info_nonempty (result_account_info d)
                    then Some (metadata_rows d) else None)))"

subsection \<open>Inputs used in examples\<close>

text \<open>A date parser that recognises nothing, and the empty options dictionary.\<close>

definition no_dates :: "string \<Rightarrow> datetime option" where
  "no_dates s = None"

definition default_options :: options where
  "default_options = \<lparr>date_format = None, include_metadata = None\<rparr>"



text \<open>A GTB statement with one transaction, whose reference cell is a number.\<close>

definition gtb_grid :: grid where
  "gtb_grid =
     [[CStr ''Guaranty Trust Bank''],
      [CStr ''Account No'', CStr ''0123456789'', CNone],
      [CStr ''TRA DATE'', CStr ''REMARKS'', CStr ''NUBAN'', CStr ''DEBIT'', CStr ''CREDIT'', CStr ''CRNT BAL''],
      [CStr ''01/01/2024'', CStr ''POS purchase'', CInt 12345, CStr '''', CStr ''100.00'', CStr ''100.00'']]"

text \<open>The generic format of a statement with one signed amount column.\<close>

definition signed_amount_format :: format_info where
  "signed_amount_format =
     detect_generic_format
       [[CStr ''Date'', CStr ''Narration'', CStr ''Amount'', CStr ''Balance'', CStr ''Remarks'']]"


text \<open>
  A statement of an unknown bank: a title, the header row, and two transactions with a
  blank row and a footer between them. It names no account.
\<close>

definition statement_grid :: grid where
  "statement_grid =
     [[CStr ''Sample Bank''],
      [CStr ''Date'', CStr ''Description'', CStr ''Debit'', CStr ''Credit'', CStr ''Balance''],
      [CStr ''01/01/2024'', CStr ''Opening deposit'', CStr '''', CStr ''1000.00'', CStr ''1000.00''],
      [CNone, CStr '''', CNone],
      [CStr ''Page 1 of 1''],
      [CStr ''02/01/2024'', CStr ''ATM withdrawal'', CInt 500, CNone, CStr ''500.00'']]"

text \<open>Metadata rows that report an opening balance three times.\<close>

definition two_openings_grid :: grid where
  "two_openings_grid =
     [[CStr ''Opening Balance'', CInt 100, CStr ''Opening Balance'', CInt 150],
      [CStr ''Opening Balance'', CInt 200]]"


section \<open>Properties\<close>

subsection \<open>Amount standardization\<close>



subsection \<open>Format detection\<close>

lemma detect_loop_find:
  "detect_loop corpus fs =
     map_option (\<lambda>(k, fi). fi\<lparr>key := k\<rparr>)
       (find (\<lambda>(k, fi). k \<noteq> ''GENERIC'' \<and> identifiers_found corpus fi) fs)"
  by (induction corpus fs rule: detect_loop.induct) simp_all



text \<open>
  C2. Detection goes through the registered profiles other than the generic one in
  registration order and returns the first whose identifying substrings, lower-cased, all
  occur in the lower-cased text of the non-absent cells of the first 20 rows; the generic
  heuristic is used only when none matches, so a grid that holds a known profile's tokens
  is assigned a known profile, whatever generic header tokens it also holds.
\<close>

theorem detect_format_priority:
  "detect_format raw_data =
     (case find (\<lambda>(k, fi). k \<noteq> ''GENERIC'' \<and> identifiers_found (search_text raw_data) fi) bank_formats of
        Some (k, fi) \<Rightarrow> fi\<lparr>key := k\<rparr>
      | None \<Rightarrow> detect_generic_format raw_data)
   \<and> ((\<exists>(k, fi) \<in> set bank_formats. k \<noteq> ''GENERIC'' \<and> identifiers_found (search_text raw_data) fi)
        \<longrightarrow> key (detect_format raw_data) \<noteq> ''GENERIC''
            \<and> (\<exists>(k, fi) \<in> set bank_formats.
                  identifiers_found (search_text raw_data) fi \<and> detect_format raw_data = fi\<lparr>key := k\<rparr>))"
proof -
  let ?P = "\<lambda>(k, fi). k \<noteq> ''GENERIC'' \<and> identifiers_found (search_text raw_data) fi"
  have eq: "detect_format raw_data =
     (case find ?P bank_formats of Some (k, fi) \<Rightarrow> fi\<lparr>key := k\<rparr> | None \<Rightarrow> detect_generic_format raw_data)"
    by (simp add: detect_format_def detect_loop_find split: option.splits)
  have "key (detect_format raw_data) \<noteq> ''GENERIC''
            \<and> (\<exists>(k, fi) \<in> set bank_formats.
                  identifiers_found (search_text raw_data) fi \<and> detect_format raw_data = fi\<lparr>key := k\<rparr>)"
    if ex: "\<exists>(k, fi) \<in> set bank_formats. ?P (k, fi)"
  proof -
    from ex obtain k fi where f: "find ?P bank_formats = Some (k, fi)"
      by (cases "find ?P bank_formats") (auto simp: find_None_iff)
    then have "?P (k, fi)" and "(k, fi) \<in> set bank_formats"
      by (auto simp: find_Some_iff in_set_conv_nth)
    moreover have "detect_format raw_data = fi\<lparr>key := k\<rparr>"
      using eq f by simp
    ultimately show ?thesis by auto
  qed
  with eq show ?thesis by blast
qed

theorem detect_format_priority_witness:
  "(\<exists>(k, fi) \<in> set bank_formats. k \<noteq> ''GENERIC'' \<and> identifiers_found (search_text gtb_grid) fi)
   \<and> find_header 0 (take 25 gtb_grid) = Some (2, gtb_grid ! 2)
   \<and> key (detect_format gtb_grid) \<noteq> ''GENERIC''"
proof -
  have a: "\<exists>(k, fi) \<in> set bank_formats. k \<noteq> ''GENERIC'' \<and> identifiers_found (search_text gtb_grid) fi"
    by code_simp
  have b: "find_header 0 (take 25 gtb_grid) = Some (2, gtb_grid ! 2)"
    by code_simp
  show ?thesis
    using a b detect_format_priority [of gtb_grid] by blast
qed

subsection \<open>Failures of the transform\<close>





subsection \<open>Debit and credit\<close>

text \<open>
  C5. When the raw transaction has a field named \<^verbatim>\<open>Amount\<close> and the column mapping
  produced neither a debit nor a credit: a negative amount puts its absolute value, with
  two decimals, in Debit and the empty string in Credit; any other amount puts its value
  in Credit and the empty string in Debit. Debit and Credit are never both non-empty.
\<close>

theorem amount_fallback_exclusive:
  assumes "map_of transaction ''Amount'' = Some a"
    and "\<not> get_truthy (backfill (apply_mapping to_datetime opts (mapping fi) transaction)) ''Debit''"
    and "\<not> get_truthy (backfill (apply_mapping to_datetime opts (mapping fi) transaction)) ''Credit''"
  shows "(float_lt_int (parse_amount a) 0 \<longrightarrow>
            map_of (standardize_one to_datetime fi opts transaction) ''Debit''
              = Some (CStr (fmt2 (float_abs (parse_amount a))))
            \<and> map_of (standardize_one to_datetime fi opts transaction) ''Credit'' = Some (CStr ''''))
         \<and> (\<not> float_lt_int (parse_amount a) 0 \<longrightarrow>
            map_of (standardize_one to_datetime fi opts transaction) ''Credit''
              = Some (CStr (fmt2 (parse_amount a)))
            \<and> map_of (standardize_one to_datetime fi opts transaction) ''Debit'' = Some (CStr ''''))
         \<and> \<not> (get_truthy (standardize_one to_datetime fi opts transaction) ''Debit''
               \<and> get_truthy (standardize_one to_datetime fi opts transaction) ''Credit'')"
  using assms
  by (simp add: standardize_one_def handle_debit_credit_logic_def amount_fallback_def
      ensure_formatting_def get_truthy_def update_conv' Let_def)

theorem amount_fallback_exclusive_witness:
  "map_of [(''Date'', CStr ''01/01/2024''), (''Amount'', CStr ''-50'')] ''Amount'' = Some (CStr ''-50'')
   \<and> float_lt_int (parse_amount (CStr ''-50'')) 0
   \<and> map_of (standardize_one no_dates signed_amount_format default_options
               [(''Date'', CStr ''01/01/2024''), (''Amount'', CStr ''-50'')]) ''Debit'' = Some (CStr ''50.00'')
   \<and> map_of (standardize_one no_dates signed_amount_format default_options
               [(''Date'', CStr ''01/01/2024''), (''Amount'', CStr ''-50'')]) ''Credit'' = Some (CStr '''')"
proof -
  let ?t = "[(''Date'', CStr ''01/01/2024''), (''Amount'', CStr ''-50'')]"
  have a: "map_of ?t ''Amount'' = Some (CStr ''-50'')" by simp
  have b: "\<not> get_truthy (backfill (apply_mapping no_dates default_options (mapping signed_amount_format) ?t)) ''Debit''"
    by code_simp
  have c: "\<not> get_truthy (backfill (apply_mapping no_dates default_options (mapping signed_amount_format) ?t)) ''Credit''"
    by code_simp
  have d: "float_lt_int (parse_amount (CStr ''-50'')) 0" by code_simp
  have e: "fmt2 (float_abs (parse_amount (CStr ''-50''))) = ''50.00''" by code_simp
  show ?thesis
    using a d e amount_fallback_exclusive [OF a b c] by simp
qed

subsection \<open>Row order\<close>











subsection \<open>Account information\<close>

text \<open>
  C8. The first match of every field is meant to win across the scanned rows. The account
  number and the account name are guarded that way, but a balance is assigned on every
  match: here the opening balance ends as the last one reported, 200, and within the
  first row alone as 150, not as the first, 100.
\<close>

theorem opening_balance_last_wins:
  "opening_balance (extract_account_info two_openings_grid (detect_format two_openings_grid))
     = Some (float_of_int 200)
   \<and> opening_balance (extract_account_info (take 1 two_openings_grid) (detect_format (take 1 two_openings_grid)))
     = Some (float_of_int 150)
   \<and> float_of_int 200 \<noteq> float_of_int 100 \<and> float_of_int 150 \<noteq> float_of_int 100"
  by code_simp

subsection \<open>Date standardization\<close>








subsection \<open>Shape of a standardized transaction\<close>

lemma update_values: "snd ` set (AList.update k v al) \<subseteq> insert v (snd ` set al)"
  by (induction al) auto





lemma backfill_loop:
  "map_of (foldl (\<lambda>d header. if map_of d header = None then AList.update header (CStr '''') d else d) st hs) k
     = (if k \<in> set hs \<and> map_of st k = None then Some (CStr '''') else map_of st k)"
  by (induction hs arbitrary: st) (auto simp: update_conv')

lemma backfill_map_of:
  "map_of (backfill st) k
     = (if k \<in> set standard_headers \<and> map_of st k = None then Some (CStr '''') else map_of st k)"
  by (simp add: backfill_def backfill_loop)







lemma handle_dom:
  "map_of st ''Debit'' \<noteq> None \<Longrightarrow> map_of st ''Credit'' \<noteq> None \<Longrightarrow>
     dom (map_of (handle_debit_credit_logic st t)) = dom (map_of st)"
  by (auto simp: handle_debit_credit_logic_def amount_fallback_def ensure_formatting_def Let_def
      update_conv' dom_def split: option.splits if_splits)

lemma standardize_one_has_headers:
  "h \<in> set standard_headers \<Longrightarrow> map_of (standardize_one to_datetime fi opts t) h \<noteq> None"
proof -
  assume h: "h \<in> set standard_headers"
  let ?B = "backfill (apply_mapping to_datetime opts (mapping fi) t)"
  have b: "\<And>k. k \<in> set standard_headers \<Longrightarrow> map_of ?B k \<noteq> None"
    by (simp add: backfill_map_of)
  have "map_of ?B ''Debit'' \<noteq> None" "map_of ?B ''Credit'' \<noteq> None"
    by (rule b, simp add: standard_headers_def)+
  then have "dom (map_of (handle_debit_credit_logic ?B t)) = dom (map_of ?B)"
    by (rule handle_dom)
  moreover have "h \<in> dom (map_of ?B)" using b [OF h] by (simp add: dom_def)
  ultimately show ?thesis by (auto simp: standardize_one_def)
qed




























subsection \<open>The metadata table\<close>

lemma frame_columns_mem: "t \<in> set ts \<Longrightarrow> map_of t k \<noteq> None \<Longrightarrow> k \<in> set (frame_columns ts)"
  by (auto simp: frame_columns_def map_of_eq_None_iff)

lemma transform_success_transactions:
  "transform_statement to_datetime now file_name raw_data opts = Success d \<Longrightarrow>
     \<exists>fi ts. result_transactions d = map (standardize_one to_datetime fi opts) ts"
proof (cases "extract_transactions raw_data (detect_format raw_data)")
  case (Inl e)
  assume "transform_statement to_datetime now file_name raw_data opts = Success d"
  with Inl show ?thesis by (simp add: transform_statement_def Let_def)
next
  case (Inr ts)
  assume "transform_statement to_datetime now file_name raw_data opts = Success d"
  with Inr have "result_transactions d = map (standardize_one to_datetime (detect_format raw_data) opts) ts"
    by (auto simp: transform_statement_def Let_def standardize_transactions_def)
  then show ?thesis by blast
qed

lemma transactions_table_ok:
  assumes "ts \<noteq> []"
  shows "\<exists>table. transactions_table (map (standardize_one to_datetime fi opts) ts) = Inr table"
proof -
  from assms obtain t where t: "t \<in> set ts" by (cases ts) auto
  have "h \<in> set (frame_columns (map (standardize_one to_datetime fi opts) ts))"
    if "h \<in> set standard_headers" for h
    using t standardize_one_has_headers [OF that]
    by (intro frame_columns_mem [of "standardize_one to_datetime fi opts t"]) auto
  then show ?thesis
    by (simp add: transactions_table_def list_all_iff)
qed

text \<open>
  The sample statement names no account: the transform succeeds, metadata is requested by
  default, the transactions table is produced, and there is no metadata table.
\<close>

theorem metadata_missing_counterexample:
  "success (transform_statement no_dates ''now'' ''s.xlsx'' statement_grid default_options)
   \<and> include_metadata default_options = None
   \<and> map_sum error_message snd
        (generate_standardized_file
           (transform_statement no_dates ''now'' ''s.xlsx'' statement_grid default_options)
           default_options) = Inr None"
  by code_simp

text \<open>
  C9, amended. For every successful transform result with at least one transaction,
  whenever metadata inclusion is requested (true, or left to its default) and the account
  information is not empty, the output has a metadata table of label and value pairs:
  account number, account name, opening balance, closing balance, original format name,
  record count and processing time, under exactly these labels.
\<close>

theorem metadata_table_when_account_known:
  assumes "transform_statement to_datetime now file_name raw_data opts0 = Success d"
    and "result_transactions d \<noteq> []"
    and "info_nonempty (result_account_info d)"
    and "include_metadata opts \<noteq> Some False"
  shows "\<exists>table. generate_standardized_file (Success d) opts =
           Inr (table,
                Some [(''Account Information'', CStr ''''),
                      (''Account Number'', text_or_empty (account_number (result_account_info d))),
                      (''Account Name'', text_or_empty (account_name (result_account_info d))),
                      (''Opening Balance'', float_or_empty (opening_balance (result_account_info d))),
                      (''Closing Balance'', float_or_empty (closing_balance (result_account_info d))),
                      ('''', CStr ''''),
                      (''Processing Information'', CStr ''''),
                      (''Original Format'', CStr (original_format d)),
                      (''Records Processed'', CInt (int (records_processed d))),
                      (''Processed At'', CStr (processed_at d))])"
proof -
  from transform_success_transactions [OF assms(1)] obtain fi ts
    where ts: "result_transactions d = map (standardize_one to_datetime fi opts0) ts" by blast
  with assms(2) have "ts \<noteq> []" by auto
  from transactions_table_ok [OF this] ts obtain table
    where "transactions_table (result_transactions d) = Inr table" by metis
  moreover have "(case include_metadata opts of Some b \<Rightarrow> b | None \<Rightarrow> True)"
    using assms(4) by (cases "include_metadata opts") auto
  ultimately show ?thesis
    using assms(3) by (simp add: generate_standardized_file_def metadata_rows_def)
qed

theorem metadata_table_when_account_known_witness:
  "\<exists>d table.
     transform_statement no_dates ''2024-05-01T10:00:00'' ''gtb.ods'' gtb_grid default_options = Success d
     \<and> generate_standardized_file (Success d) default_options =
         Inr (table,
              Some [(''Account Information'', CStr ''''),
                    (''Account Number'', CStr ''0123456789''),
                    (''Account Name'', CStr ''''),
                    (''Opening Balance'', CStr ''''),
                    (''Closing Balance'', CStr ''''),
                    ('''', CStr ''''),
                    (''Processing Information'', CStr ''''),
                    (''Original Format'', CStr ''GTB ODS Statement Format''),
                    (''Records Processed'', CInt 1),
                    (''Processed At'', CStr ''2024-05-01T10:00:00'')])"
proof -
  let ?r = "transform_statement no_dates ''2024-05-01T10:00:00'' ''gtb.ods'' gtb_grid default_options"
  have e: "(case ?r of
              Success d \<Rightarrow>
                result_transactions d \<noteq> [] \<and> info_nonempty (result_account_info d)
                \<and> result_account_info d
                    = \<lparr>account_number = Some ''0123456789'', account_name = None,
                       opening_balance = None, closing_balance = None\<rparr>
                \<and> original_format d = ''GTB ODS Statement Format''
                \<and> records_processed d = 1
                \<and> processed_at d = ''2024-05-01T10:00:00''
            | Failure msg file \<Rightarrow> False)"
    by code_simp
  then obtain d where d: "?r = Success d" by (cases ?r) auto
  with e have f: "result_transactions d \<noteq> []" "info_nonempty (result_account_info d)"
      "result_account_info d
         = \<lparr>account_number = Some ''0123456789'', account_name = None,
            opening_balance = None, closing_balance = None\<rparr>"
      "original_format d = ''GTB ODS Statement Format''" "records_processed d = 1"
      "processed_at d = ''2024-05-01T10:00:00''"
    by (simp_all add: info_nonempty_def)
  have g: "include_metadata default_options \<noteq> Some False"
    by (simp add: default_options_def)
  from metadata_table_when_account_known [OF d f(1) f(2) g] f(3-6) d
  show ?thesis by (simp add: text_or_empty_def float_or_empty_def)
qed

end
